theory Spec2Isabelle
  imports Complex_Main
begin

section \<open>Distributed GraphSAGE training driver (train\_dist\_drpa\_ogbn-papers.py)\<close>

text \<open>
  The script is a driver over three external libraries: the tensor and autograd library
  (torch), the graph library (dgl, with its replicated-partition class drpa) and the
  collective-communication backend (torch.distributed). The embedding covers the
  script's own Python statements: its control flow, its exceptions, the order of the
  library calls it makes and the values it passes to them. A library call is an operation
  of the environment (a field of the record \<open>runtime\<close> below) that is taken to return;
  what the script observes of it is written out where a claim depends on it (the
  all-reduce).

  Standing conventions: the interpreter runs with assert statements enabled, paths are
  POSIX paths, and a tensor's elements are real numbers (rounding is not modelled).
\<close>

subsection \<open>Python values and exceptions\<close>

datatype exn =
    TypeError
  | NameError string
  | AssertionError string
  | KeyError string
  | IndexError
  | ZeroDivisionError
  | ValueError
  | DGLError string

text \<open>\<open>range(n)\<close> for an integer \<open>n\<close>: empty when \<open>n \<le> 0\<close>.\<close>

definition py_range :: "int \<Rightarrow> int list" where
  "py_range n = [0..n - 1]"

text \<open>\<open>str(i)\<close> for an integer \<open>i\<close>: its decimal digits, with a leading minus sign.\<close>

fun digits :: "nat \<Rightarrow> string" where
  "digits n =
     (if n < 10 then [''0123456789'' ! n]
      else digits (n div 10) @ [''0123456789'' ! (n mod 10)])"

declare digits.simps [simp del]

definition str_int :: "int \<Rightarrow> string" where
  "str_int i = (if i < 0 then CHR ''-'' # digits (nat (- i)) else digits (nat i))"

text \<open>
  \<open>os.path.join(a, *p)\<close> of posixpath: a component that starts with the separator
  replaces the path, an empty path or one that ends with the separator takes the
  component as it is, and otherwise the separator is put between them.
\<close>

definition startswith_sep :: "string \<Rightarrow> bool" where
  "startswith_sep b = (case b of [] \<Rightarrow> False | c # _ \<Rightarrow> c = CHR ''/'')"

definition endswith_sep :: "string \<Rightarrow> bool" where
  "endswith_sep b = (case rev b of [] \<Rightarrow> False | c # _ \<Rightarrow> c = CHR ''/'')"

definition join_step :: "string \<Rightarrow> string \<Rightarrow> string" where
  "join_step path b =
     (if startswith_sep b then b
      else if path = [] \<or> endswith_sep path then path @ b
      else path @ ''/'' @ b)"

definition os_path_join :: "string \<Rightarrow> string list \<Rightarrow> string" where
  "os_path_join a p = foldl join_step a p"

text \<open>
  A Python dict with string keys, in insertion order. \<open>d[k]\<close> raises KeyError when the
  key is absent; \<open>d[k] = v\<close> replaces the value of a present key and appends an absent
  one.
\<close>

type_synonym 'v dict = "(string \<times> 'v) list"

fun dict_get :: "'v dict \<Rightarrow> string \<Rightarrow> exn + 'v" where
  "dict_get [] k = Inl (KeyError k)"
| "dict_get ((k', v) # d) k = (if k' = k then Inr v else dict_get d k)"

fun dict_set :: "'v dict \<Rightarrow> string \<Rightarrow> 'v \<Rightarrow> 'v dict" where
  "dict_set [] k v = [(k, v)]"
| "dict_set ((k', v') # d) k v = (if k' = k then (k, v) # d else (k', v') # dict_set d k v)"

definition dict_has :: "'v dict \<Rightarrow> string \<Rightarrow> bool" where
  "dict_has d k = (k \<in> set (map fst d))"

subsection \<open>The GraphSAGE model (class GraphSAGE)\<close>

text \<open>
  \<open>SAGEConv(in, out, aggregator_type)\<close> is a library layer; the model keeps the
  arguments it was constructed from.
\<close>

datatype sageconv = SAGEConv (conv_in: int) (conv_out: int) (conv_aggregator: string)

record 'act GraphSAGE =
  self_layers :: "sageconv list"
  self_dropout :: real
  self_activation :: 'act

text \<open>
  \<open>__init__\<close>: the input layer, one hidden layer for each element of
  \<open>range(n_layers - 1)\<close>, then the output layer, each appended to \<open>self.layers\<close>.
\<close>

definition GraphSAGE_init ::
  "int \<Rightarrow> int \<Rightarrow> int \<Rightarrow> int \<Rightarrow> 'act \<Rightarrow> real \<Rightarrow> string \<Rightarrow> 'act GraphSAGE" where
  "GraphSAGE_init in_feats n_hidden n_classes n_layers act p aggregator_type =
     (let ls0 = [] @ [SAGEConv in_feats n_hidden aggregator_type];
          ls1 = foldl (\<lambda>ls i. ls @ [SAGEConv n_hidden n_hidden aggregator_type]) ls0
                  (py_range (n_layers - 1));
          ls2 = ls1 @ [SAGEConv n_hidden n_classes aggregator_type]
      in \<lparr>self_layers = ls2, self_dropout = p, self_activation = act\<rparr>)"

text \<open>
  \<open>forward\<close>: \<open>h\<close> goes through the layers in order; after every layer whose index is
  not \<open>len(self.layers) - 1\<close> the activation and then the dropout are applied. The
  three operations are the library's: \<open>layer_call l h\<close> is \<open>layer(graph, h)\<close>,
  \<open>act_call\<close> is \<open>self.activation\<close> and \<open>drop_call\<close> is \<open>self.dropout\<close>. The type
  \<open>'h\<close> holds whatever the calls read and change (the tensor, and the state of the
  random number generator behind the dropout). The argument \<open>inf\<close> (here
  \<open>inf_flag\<close>) is not used by the body.
\<close>

definition forward_step ::
  "(sageconv \<Rightarrow> 'h \<Rightarrow> 'h) \<Rightarrow> ('h \<Rightarrow> 'h) \<Rightarrow> ('h \<Rightarrow> 'h) \<Rightarrow> nat \<Rightarrow> 'h \<Rightarrow> nat \<times> sageconv \<Rightarrow> 'h" where
  "forward_step layer_call act_call drop_call len h e =
     (case e of (l, layer) \<Rightarrow>
        (let h1 = layer_call layer h
         in if int l \<noteq> int len - 1 then drop_call (act_call h1) else h1))"

definition forward ::
  "(sageconv \<Rightarrow> 'h \<Rightarrow> 'h) \<Rightarrow> ('h \<Rightarrow> 'h) \<Rightarrow> ('h \<Rightarrow> 'h) \<Rightarrow> sageconv list \<Rightarrow> 'h \<Rightarrow> bool \<Rightarrow> 'h" where
  "forward layer_call act_call drop_call ls inputs inf_flag =
     foldl (forward_step layer_call act_call drop_call (length ls)) inputs (enumerate 0 ls)"

subsection \<open>Values read from JSON, tensors and graphs\<close>

text \<open>What \<open>json.load\<close> returns: None, bool, int, float, str, list, or dict.\<close>

datatype json =
    JNull
  | JBool bool
  | JInt int
  | JFloat real
  | JStr string
  | JArr "json list"
  | JObj "(string \<times> json) list"

text \<open>
  \<open>x[k]\<close> for a string \<open>k\<close>: a dict looks the key up; every other value raises
  TypeError (a list or a string wants an integer index, the others have no subscript).
\<close>

definition json_subscript :: "json \<Rightarrow> string \<Rightarrow> exn + json" where
  "json_subscript x k = (case x of JObj d \<Rightarrow> dict_get d k | _ \<Rightarrow> Inl TypeError)"

text \<open>
  \<open>k in x\<close> for a string \<open>k\<close>: key membership in a dict, element membership in a
  list, substring test in a string; TypeError for a value that is not iterable.
\<close>

definition is_substring :: "string \<Rightarrow> string \<Rightarrow> bool" where
  "is_substring k s = list_ex (\<lambda>i. take (length k) (drop i s) = k) [0..<Suc (length s)]"

definition json_contains :: "string \<Rightarrow> json \<Rightarrow> exn + bool" where
  "json_contains k x =
     (case x of
        JObj d \<Rightarrow> Inr (dict_has d k)
      | JArr xs \<Rightarrow> Inr (JStr k \<in> set xs)
      | JStr s \<Rightarrow> Inr (is_substring k s)
      | _ \<Rightarrow> Inl TypeError)"

text \<open>
  \<open>a / x\<close> for a float \<open>a\<close> and a value \<open>x\<close> read from JSON: a number divides (a bool
  counts as 0 or 1), zero raises ZeroDivisionError, and any other value raises TypeError.
\<close>

definition float_div :: "real \<Rightarrow> json \<Rightarrow> exn + real" where
  "float_div a x =
     (case x of
        JInt n \<Rightarrow> (if n = 0 then Inl ZeroDivisionError else Inr (a / of_int n))
      | JFloat r \<Rightarrow> (if r = 0 then Inl ZeroDivisionError else Inr (a / r))
      | JBool b \<Rightarrow> (if b then Inr (a / 1) else Inl ZeroDivisionError)
      | _ \<Rightarrow> Inl TypeError)"

datatype dtype = Float32 | Float64 | Int32 | Int64 | Bool8

record tensor =
  dtype :: dtype
  elems :: "real list"

text \<open>\<open>t.long()\<close>: the elements truncated towards zero, as 64-bit integers.\<close>

definition long :: "tensor \<Rightarrow> tensor" where
  "long t = \<lparr>dtype = Int64,
             elems = map (\<lambda>x. of_int (if x < 0 then \<lceil>x\<rceil> else \<lfloor>x\<rfloor>)) (elems t)\<rparr>"

record graph =
  num_nodes :: nat
  edges :: "(nat \<times> nat) list"
  ndata :: "tensor dict"

text \<open>
  Modelled from the spec: an object of the class \<open>drpa\<close> (dgl.distgnn.drpa\_sym),
  which the source imports and does not define. The object keeps the arguments its
  constructor was called with, in their order; the argument \<open>dist\<close> is the module
  torch.distributed.
\<close>

record drpa_obj =
  drpa_graph :: graph
  drpa_rank :: int
  drpa_num_parts :: json
  drpa_node_map :: json
  drpa_nr :: int
  drpa_dist :: string
  drpa_n_layers :: int

text \<open>The tuple \<open>data\<close>: \<open>n_classes, node_map, num_parts, rank, world_size\<close>.\<close>

type_synonym data = "int \<times> json \<times> json \<times> int \<times> int"

subsection \<open>Parameters, gradients and the all-reduce\<close>

record param =
  requires_grad :: bool
  grad :: "real list option"

datatype ReduceOp = ReduceOp_SUM | ReduceOp_PRODUCT | ReduceOp_MIN | ReduceOp_MAX

definition reduce2 :: "ReduceOp \<Rightarrow> real \<Rightarrow> real \<Rightarrow> real" where
  "reduce2 op a b =
     (case op of
        ReduceOp_SUM \<Rightarrow> a + b
      | ReduceOp_PRODUCT \<Rightarrow> a * b
      | ReduceOp_MIN \<Rightarrow> min a b
      | ReduceOp_MAX \<Rightarrow> max a b)"

text \<open>
  \<open>torch.distributed.all_reduce(t, op)\<close> is a collective call: every rank passes a
  tensor of the same shape, and when the call returns the tensor of every rank holds
  the elementwise reduction over all ranks. Seen from one rank: \<open>t\<close> is the tensor it
  passes, \<open>peers\<close> are the tensors the other ranks pass, and the result is what \<open>t\<close>
  holds afterwards.
\<close>

definition all_reduce :: "ReduceOp \<Rightarrow> real list \<Rightarrow> real list list \<Rightarrow> real list" where
  "all_reduce op t peers = foldl (\<lambda>acc u. map2 (reduce2 op) acc u) t peers"

subsection \<open>Arguments, the environment and the trace of library calls\<close>

text \<open>The namespace \<open>args\<close> of the argument parser, with the attribute \<open>distributed\<close>.\<close>

record args =
  dataset :: string
  dropout :: real
  gpu :: int
  nr :: int
  val :: bool
  lr :: real
  n_epochs :: int
  n_hidden :: int
  n_layers :: int
  weight_decay :: real
  aggregator_type :: string
  world_size :: int
  rank :: int
  dist_url :: string
  dist_backend :: string
  distributed :: bool

text \<open>The node-id tensors of \<open>run\<close>, and the tensors passed to an all-reduce.\<close>

datatype nid = train_nid | val_nid | test_nid

datatype target = GradOf nat | ValAcc | TestAcc

text \<open>
  One event for each library call of the script, in the order of the calls. A print is
  recorded with a tag that tells which print statement it is.
\<close>

datatype event =
    EvPrint string
  | EvInitProcessGroup string string int int
  | EvOpenJson string
  | EvLoadTensors json
  | EvLoadGraphs json
  | EvDrpa drpa_obj
  | EvDrpaFinalize drpa_obj
  | EvBarrier
  | EvGcSetThreshold
  | EvCudaSetDevice int
  | EvGraphToDevice int
  | EvNewModel "sageconv list"
  | EvModelCuda
  | EvAdam
  | EvTime
  | EvModelTrain
  | EvModelEval
  | EvLayer sageconv
  | EvActivation
  | EvDropout
  | EvIndex nid
  | EvCrossEntropy
  | EvZeroGrad
  | EvBackward
  | EvAllReduce target ReduceOp
  | EvOptimizerStep
  | EvArgmax
  | EvCountEqual

text \<open>
  What the libraries hold for one rank: the model's parameters in the order of
  \<open>model.parameters()\<close>, and the rest (weights, optimizer state, autograd graph,
  activations, random number generator), which the script never reads.
\<close>

record 'o model_state =
  params :: "param list"
  rest :: 'o

text \<open>
  The environment of one rank. \<open>getenv_int name\<close> is \<open>int(os.environ[name])\<close>: None
  when the variable is not set, otherwise the integer or the ValueError of \<open>int\<close>.
  \<open>json_file path\<close> is \<open>json.load\<close> of the opened file, \<open>load_graphs x\<close> the list of
  graphs that \<open>load_graphs(x)\<close> returns first. \<open>in_feats_op g\<close> is
  \<open>g.ndata['feat'].shape[1]\<close>. \<open>correct_op\<close> is \<open>correct.item()\<close> and \<open>len_labels\<close> is
  \<open>len(labels)\<close> in \<open>evaluate\<close> for the given node ids. \<open>peer_tensors k\<close> and
  \<open>peer_scalars k\<close> are what the other ranks pass to their \<open>k\<close>-th collective call
  (tensors for a gradient, numbers for a tensor of one element).
\<close>

record 'o runtime =
  getenv_int :: "string \<Rightarrow> (exn + int) option"
  ccl_imported :: bool
  json_file :: "string \<Rightarrow> json"
  load_tensors :: "json \<Rightarrow> tensor dict"
  load_graphs :: "json \<Rightarrow> graph list"
  in_feats_op :: "drpa_obj \<Rightarrow> int"
  new_model_op :: "sageconv list \<Rightarrow> 'o model_state \<Rightarrow> 'o model_state"
  adam_op :: "'o model_state \<Rightarrow> 'o model_state"
  cuda_op :: "'o model_state \<Rightarrow> 'o model_state"
  train_op :: "'o model_state \<Rightarrow> 'o model_state"
  eval_op :: "'o model_state \<Rightarrow> 'o model_state"
  layer_op :: "drpa_obj \<Rightarrow> sageconv \<Rightarrow> 'o model_state \<Rightarrow> 'o model_state"
  relu_op :: "'o model_state \<Rightarrow> 'o model_state"
  dropout_op :: "real \<Rightarrow> 'o model_state \<Rightarrow> 'o model_state"
  cross_entropy_op :: "'o model_state \<Rightarrow> 'o model_state"
  zero_grad_op :: "'o model_state \<Rightarrow> 'o model_state"
  backward_op :: "'o model_state \<Rightarrow> 'o model_state"
  step_op :: "'o model_state \<Rightarrow> 'o model_state"
  correct_op :: "'o model_state \<Rightarrow> nid \<Rightarrow> nat"
  len_labels :: "nid \<Rightarrow> nat"
  peer_tensors :: "nat \<Rightarrow> real list list"
  peer_scalars :: "nat \<Rightarrow> real list"

text \<open>
  The state of a run on one rank: the library state, the trace of the calls made so far
  (the latest last), and the number of collective calls this rank has made.
\<close>

record 'o run_state =
  ms :: "'o model_state"
  trace :: "event list"
  ncoll :: nat

text \<open>A raised exception leaves with the state in which it was raised.\<close>

type_synonym 'o result = "(exn \<times> 'o run_state) + 'o run_state"

definition final_state :: "'o result \<Rightarrow> 'o run_state" where
  "final_state r = (case r of Inl (e, st) \<Rightarrow> st | Inr st \<Rightarrow> st)"


definition emit :: "event \<Rightarrow> 'o run_state \<Rightarrow> 'o run_state" where
  "emit e st = st\<lparr>trace := trace st @ [e]\<rparr>"

definition lib_call ::
  "event \<Rightarrow> ('o model_state \<Rightarrow> 'o model_state) \<Rightarrow> 'o run_state \<Rightarrow> 'o run_state" where
  "lib_call e f st = st\<lparr>ms := f (ms st), trace := trace st @ [e]\<rparr>"

definition all_reduce_call ::
  "'o runtime \<Rightarrow> target \<Rightarrow> ReduceOp \<Rightarrow> real list \<Rightarrow> 'o run_state \<Rightarrow> real list \<times> 'o run_state" where
  "all_reduce_call rt tgt op t st =
     (all_reduce op t (peer_tensors rt (ncoll st)),
      st\<lparr>trace := trace st @ [EvAllReduce tgt op], ncoll := Suc (ncoll st)\<rparr>)"

text \<open>The all-reduce of a tensor of one element, written as the number it holds.\<close>

definition all_reduce_scalar_call ::
  "'o runtime \<Rightarrow> target \<Rightarrow> ReduceOp \<Rightarrow> real \<Rightarrow> 'o run_state \<Rightarrow> real \<times> 'o run_state" where
  "all_reduce_scalar_call rt tgt op x st =
     (foldl (reduce2 op) x (peer_scalars rt (ncoll st)),
      st\<lparr>trace := trace st @ [EvAllReduce tgt op], ncoll := Suc (ncoll st)\<rparr>)"

subsection \<open>The functions evaluate and run\<close>

text \<open>\<open>model(graph, features, inf)\<close>: the forward pass of the class, on the library state.\<close>

definition model_call ::
  "'o runtime \<Rightarrow> drpa_obj \<Rightarrow> ('o model_state \<Rightarrow> 'o model_state) GraphSAGE \<Rightarrow> bool \<Rightarrow>
     'o run_state \<Rightarrow> 'o run_state" where
  "model_call rt g model inf_flag st =
     forward (\<lambda>layer. lib_call (EvLayer layer) (layer_op rt g layer))
       (lib_call EvActivation (self_activation model))
       (lib_call EvDropout (dropout_op rt (self_dropout model)))
       (self_layers model) st inf_flag"

text \<open>
  \<open>evaluate\<close>: the division \<open>correct.item() * 1.0 / len(labels)\<close> raises
  ZeroDivisionError when no label is selected.
\<close>

definition evaluate ::
  "'o runtime \<Rightarrow> drpa_obj \<Rightarrow> ('o model_state \<Rightarrow> 'o model_state) GraphSAGE \<Rightarrow> nid \<Rightarrow>
     'o run_state \<Rightarrow> (exn \<times> 'o run_state) + (real \<times> 'o run_state)" where
  "evaluate rt g model ids st0 =
     (let st = lib_call EvModelEval (eval_op rt) st0;
          st = model_call rt g model True st;
          st = emit (EvIndex ids) st;
          st = emit (EvIndex ids) st;
          st = emit EvArgmax st;
          st = emit EvCountEqual st;
          correct = correct_op rt (ms st) ids;
          n = len_labels rt ids
      in if n = 0 then Inl (ZeroDivisionError, st)
         else Inr (real correct * 1.0 / real n, st))"

text \<open>The condition \<open>param.requires_grad and param.grad is not None\<close>.\<close>

definition synced :: "param \<Rightarrow> bool" where
  "synced p = (requires_grad p \<and> grad p \<noteq> None)"

text \<open>
  The loop over \<open>model.parameters()\<close> after the backward pass: a parameter that
  meets the condition has its gradient all-reduced in place with \<open>ReduceOp.SUM\<close>.
  The index \<open>i\<close> is the parameter's position.
\<close>

fun sync_loop ::
  "'o runtime \<Rightarrow> nat \<Rightarrow> param list \<Rightarrow> 'o run_state \<Rightarrow> param list \<times> 'o run_state" where
  "sync_loop rt i [] st = ([], st)"
| "sync_loop rt i (p # ps) st =
     (if synced p then
        (case all_reduce_call rt (GradOf i) ReduceOp_SUM (the (grad p)) st of
           (t, st1) \<Rightarrow>
             (case sync_loop rt (Suc i) ps st1 of
                (ps', st2) \<Rightarrow> (p\<lparr>grad := Some t\<rparr> # ps', st2)))
      else
        (case sync_loop rt (Suc i) ps st of
           (ps', st2) \<Rightarrow> (p # ps', st2)))"

definition sync_gradients :: "'o runtime \<Rightarrow> 'o run_state \<Rightarrow> 'o run_state" where
  "sync_gradients rt st =
     (case sync_loop rt 0 (params (ms st)) st of
        (ps', st') \<Rightarrow> st'\<lparr>ms := (ms st')\<lparr>params := ps'\<rparr>\<rparr>)"

text \<open>The statements of one iteration from \<open>tic = time.time()\<close> to \<open>loss.backward()\<close>.\<close>

definition forward_backward ::
  "'o runtime \<Rightarrow> drpa_obj \<Rightarrow> ('o model_state \<Rightarrow> 'o model_state) GraphSAGE \<Rightarrow>
     'o run_state \<Rightarrow> 'o run_state" where
  "forward_backward rt g model st0 =
     (let st = emit EvTime st0;
          st = lib_call EvModelTrain (train_op rt) st;
          st = model_call rt g model False st;
          st = emit (EvIndex train_nid) st;
          st = emit (EvIndex train_nid) st;
          st = lib_call EvCrossEntropy (cross_entropy_op rt) st;
          st = lib_call EvZeroGrad (zero_grad_op rt) st;
          st = lib_call EvBackward (backward_op rt) st
      in st)"

text \<open>The statements of one iteration up to \<open>optimizer.step()\<close>.\<close>

definition train_step ::
  "'o runtime \<Rightarrow> drpa_obj \<Rightarrow> ('o model_state \<Rightarrow> 'o model_state) GraphSAGE \<Rightarrow>
     'o run_state \<Rightarrow> 'o run_state" where
  "train_step rt g model st0 =
     (let st = forward_backward rt g model st0;
          st = sync_gradients rt st;
          st = lib_call EvOptimizerStep (step_op rt) st
      in st)"

text \<open>The branch \<open>if args.val\<close> of an iteration.\<close>

definition validate ::
  "'o runtime \<Rightarrow> drpa_obj \<Rightarrow> data \<Rightarrow> ('o model_state \<Rightarrow> 'o model_state) GraphSAGE \<Rightarrow>
     'o run_state \<Rightarrow> 'o result" where
  "validate rt g dat model st0 =
     (case dat of (n_classes, node_map, num_parts, d_rank, d_world_size) \<Rightarrow>
        (case evaluate rt g model val_nid st0 of
           Inl e \<Rightarrow> Inl e
         | Inr (acc, st1) \<Rightarrow>
             (case all_reduce_scalar_call rt ValAcc ReduceOp_SUM acc st1 of
                (vacc, st2) \<Rightarrow>
                  if d_rank = 0 then
                    (let st3 = emit EvTime st2
                     in case float_div vacc num_parts of
                          Inl e \<Rightarrow> Inl (e, st3)
                        | Inr x \<Rightarrow> Inr (emit (EvPrint ''Epoch | Time(s) | Loss | Accuracy'') st3))
                  else Inr st2)))"

definition epoch_body ::
  "'o runtime \<Rightarrow> args \<Rightarrow> drpa_obj \<Rightarrow> data \<Rightarrow> ('o model_state \<Rightarrow> 'o model_state) GraphSAGE \<Rightarrow>
     int \<Rightarrow> 'o run_state \<Rightarrow> 'o result" where
  "epoch_body rt a g dat model epoch st0 =
     (let st = train_step rt g model st0
      in case (if val a then validate rt g dat model st else Inr st) of
           Inl e \<Rightarrow> Inl e
         | Inr st1 \<Rightarrow>
             (let st2 = emit EvTime st1
              in if rank a = 0
                 then Inr (emit (EvPrint []) (emit (EvPrint ''Epoch: time:'') st2))
                 else Inr st2))"

text \<open>\<open>for epoch in range(args.n_epochs)\<close>, over the list of the epoch numbers.\<close>

fun epoch_loop ::
  "'o runtime \<Rightarrow> args \<Rightarrow> drpa_obj \<Rightarrow> data \<Rightarrow> ('o model_state \<Rightarrow> 'o model_state) GraphSAGE \<Rightarrow>
     int list \<Rightarrow> 'o run_state \<Rightarrow> 'o result" where
  "epoch_loop rt a g dat model [] st = Inr st"
| "epoch_loop rt a g dat model (epoch # epochs) st =
     (case epoch_body rt a g dat model epoch st of
        Inl e \<Rightarrow> Inl e
      | Inr st' \<Rightarrow> epoch_loop rt a g dat model epochs st')"

text \<open>The statements after the loop: the evaluation on the test nodes and its all-reduce.\<close>

definition final_test ::
  "'o runtime \<Rightarrow> args \<Rightarrow> drpa_obj \<Rightarrow> data \<Rightarrow> ('o model_state \<Rightarrow> 'o model_state) GraphSAGE \<Rightarrow>
     'o run_state \<Rightarrow> 'o result" where
  "final_test rt a g dat model st0 =
     (case dat of (n_classes, node_map, num_parts, d_rank, d_world_size) \<Rightarrow>
        (case evaluate rt g model test_nid (emit (EvPrint []) st0) of
           Inl e \<Rightarrow> Inl e
         | Inr (acc, st1) \<Rightarrow>
             (case all_reduce_scalar_call rt TestAcc ReduceOp_SUM acc st1 of
                (cum_acc, st2) \<Rightarrow>
                  if rank a = 0 then
                    (let st3 = emit (EvPrint ''----'') st2
                     in case float_div cum_acc num_parts of
                          Inl e \<Rightarrow> Inl (e, st3)
                        | Inr x \<Rightarrow>
                            Inr (emit (EvPrint ''----'') (emit (EvPrint ''Accuracy, avg:'') st3)))
                  else Inr st2)))"

text \<open>The epoch loop followed by the statements after it.\<close>

definition train_and_test ::
  "'o runtime \<Rightarrow> args \<Rightarrow> drpa_obj \<Rightarrow> data \<Rightarrow> ('o model_state \<Rightarrow> 'o model_state) GraphSAGE \<Rightarrow>
     'o run_state \<Rightarrow> 'o result" where
  "train_and_test rt a g dat model st =
     (case epoch_loop rt a g dat model (py_range (n_epochs a)) st of
        Inl e \<Rightarrow> Inl e
      | Inr st1 \<Rightarrow> final_test rt a g dat model st1)"

text \<open>
  The statements of \<open>run\<close> before the loop: the data statistics are printed, the
  tensors and the graph go to the GPU when \<open>args.gpu\<close> is not negative, and the model
  and the optimizer are constructed.
\<close>

definition run_setup ::
  "'o runtime \<Rightarrow> args \<Rightarrow> drpa_obj \<Rightarrow> data \<Rightarrow> 'o run_state \<Rightarrow>
     ('o model_state \<Rightarrow> 'o model_state) GraphSAGE \<times> 'o run_state" where
  "run_setup rt a g dat st0 =
     (case dat of (n_classes, node_map, num_parts, d_rank, d_world_size) \<Rightarrow>
        (let in_feats = in_feats_op rt g;
             st = emit (EvPrint ''Data statistics'') st0;
             cuda = (\<not> gpu a < 0);
             st = (if cuda
                   then emit (EvPrint ''use cuda:'') (emit (EvCudaSetDevice (gpu a)) st)
                   else st);
             st = (if cuda then emit (EvGraphToDevice (gpu a)) st else st);
             model = GraphSAGE_init in_feats (n_hidden a) n_classes (n_layers a) (relu_op rt)
                       (dropout a) (aggregator_type a);
             st = lib_call (EvNewModel (self_layers model)) (new_model_op rt (self_layers model)) st;
             st = (if cuda then lib_call EvModelCuda (cuda_op rt) st else st);
             st = lib_call EvAdam (adam_op rt) st
         in (model, st)))"

definition run :: "'o runtime \<Rightarrow> args \<Rightarrow> drpa_obj \<Rightarrow> data \<Rightarrow> 'o run_state \<Rightarrow> 'o result" where
  "run rt a g dat st0 =
     (case run_setup rt a g dat st0 of (model, st) \<Rightarrow> train_and_test rt a g dat model st)"

subsection \<open>The names bound in the module\<close>

text \<open>
  The names the module binds before the dataset is chosen: the imports (\<open>torch_ccl\<close>
  only when its import succeeded), the class and the functions, and the variables
  assigned so far, together with the names every module has.
\<close>

definition module_names :: "bool \<Rightarrow> string list" where
  "module_names ccl =
     [''__name__'', ''__doc__'', ''__package__'', ''__loader__'', ''__spec__'', ''__file__'',
      ''__builtins__'',
      ''os'', ''sys'', ''gc'', ''json'', ''argparse'', ''time'', ''np'', ''th'', ''nn'', ''F'',
      ''dgl'', ''DGLGraph'', ''load_tensors'', ''load_graphs'', ''register_data_args'',
      ''load_data'', ''SAGEConv'', ''optim'', ''mp'', ''dist'', ''load_reddit'', ''load_ogb'',
      ''drpa'']
     @ (if ccl then [''torch_ccl''] else [])
     @ [''GraphSAGE'', ''evaluate'', ''run'', ''main'',
        ''parser'', ''args'', ''nc'', ''part_config'']"

text \<open>The names of the module \<open>builtins\<close> (CPython 3).\<close>

definition builtin_names :: "string list" where
  "builtin_names =
     [''abs'', ''aiter'', ''all'', ''anext'', ''any'', ''ascii'', ''bin'', ''bool'',
      ''breakpoint'', ''bytearray'', ''bytes'', ''callable'', ''chr'', ''classmethod'',
      ''compile'', ''complex'', ''copyright'', ''credits'', ''delattr'', ''dict'', ''dir'',
      ''divmod'', ''enumerate'', ''eval'', ''exec'', ''exit'', ''filter'', ''float'',
      ''format'', ''frozenset'', ''getattr'', ''globals'', ''hasattr'', ''hash'', ''help'',
      ''hex'', ''id'', ''input'', ''int'', ''isinstance'', ''issubclass'', ''iter'', ''len'',
      ''license'', ''list'', ''locals'', ''map'', ''max'', ''memoryview'', ''min'', ''next'',
      ''object'', ''oct'', ''open'', ''ord'', ''pow'', ''print'', ''property'', ''quit'',
      ''range'', ''repr'', ''reversed'', ''round'', ''set'', ''setattr'', ''slice'',
      ''sorted'', ''staticmethod'', ''str'', ''sum'', ''super'', ''tuple'', ''type'', ''vars'',
      ''zip'', ''__import__'', ''__build_class__'', ''__debug__'',
      ''None'', ''True'', ''False'', ''Ellipsis'', ''NotImplemented'',
      ''ArithmeticError'', ''AssertionError'', ''AttributeError'', ''BaseException'',
      ''BaseExceptionGroup'', ''BlockingIOError'', ''BrokenPipeError'', ''BufferError'',
      ''BytesWarning'', ''ChildProcessError'', ''ConnectionAbortedError'',
      ''ConnectionError'', ''ConnectionRefusedError'', ''ConnectionResetError'',
      ''DeprecationWarning'', ''EOFError'', ''EncodingWarning'', ''EnvironmentError'',
      ''Exception'', ''ExceptionGroup'', ''FileExistsError'', ''FileNotFoundError'',
      ''FloatingPointError'', ''FutureWarning'', ''GeneratorExit'', ''IOError'',
      ''ImportError'', ''ImportWarning'', ''IndentationError'', ''IndexError'',
      ''InterruptedError'', ''IsADirectoryError'', ''KeyError'', ''KeyboardInterrupt'',
      ''LookupError'', ''MemoryError'', ''ModuleNotFoundError'', ''NameError'',
      ''NotADirectoryError'', ''NotImplementedError'', ''OSError'', ''OverflowError'',
      ''PendingDeprecationWarning'', ''PermissionError'', ''ProcessLookupError'',
      ''RecursionError'', ''ReferenceError'', ''ResourceWarning'', ''RuntimeError'',
      ''RuntimeWarning'', ''StopAsyncIteration'', ''StopIteration'', ''SyntaxError'',
      ''SyntaxWarning'', ''SystemError'', ''SystemExit'', ''TabError'', ''TimeoutError'',
      ''TypeError'', ''UnboundLocalError'', ''UnicodeDecodeError'', ''UnicodeEncodeError'',
      ''UnicodeError'', ''UnicodeTranslateError'', ''UnicodeWarning'', ''UserWarning'',
      ''ValueError'', ''Warning'', ''ZeroDivisionError'']"

text \<open>
  Evaluating a name at module level: the module's names, then the built-in names,
  and NameError when neither binds it.
\<close>

definition lookup_name :: "bool \<Rightarrow> string \<Rightarrow> exn + unit" where
  "lookup_name ccl n =
     (if n \<in> set (module_names ccl) then Inr ()
      else if n \<in> set builtin_names then Inr ()
      else Inl (NameError n))"

subsection \<open>The script (the block under \<open>if __name__ == '__main__'\<close>)\<close>

text \<open>
  The model starts from the parsed namespace \<open>args\<close>. An exception of a pure step
  is raised in the current state.
\<close>

definition or_raise ::
  "exn + 'a \<Rightarrow> 's \<Rightarrow> ('a \<Rightarrow> (exn \<times> 's) + 'b) \<Rightarrow> (exn \<times> 's) + 'b" where
  "or_raise r st k = (case r of Inl e \<Rightarrow> Inl (e, st) | Inr x \<Rightarrow> k x)"

text \<open>\<open>int(os.environ.get(name, -1))\<close> and \<open>int(os.environ[name])\<close>.\<close>

definition environ_get_int :: "'o runtime \<Rightarrow> string \<Rightarrow> exn + int" where
  "environ_get_int rt name = (case getenv_int rt name of None \<Rightarrow> Inr (- 1) | Some r \<Rightarrow> r)"

definition environ_int :: "'o runtime \<Rightarrow> string \<Rightarrow> exn + int" where
  "environ_int rt name = (case getenv_int rt name of None \<Rightarrow> Inl (KeyError name) | Some r \<Rightarrow> r)"

definition resolve_world_size :: "'o runtime \<Rightarrow> args \<Rightarrow> exn + args" where
  "resolve_world_size rt a =
     (if dist_url a = ''env://'' \<and> world_size a = - 1 then
        (case environ_get_int rt ''PMI_SIZE'' of
           Inl e \<Rightarrow> Inl e
         | Inr n \<Rightarrow>
             if n = - 1 then
               (case environ_int rt ''WORLD_SIZE'' of
                  Inl e \<Rightarrow> Inl e
                | Inr m \<Rightarrow> Inr (a\<lparr>world_size := m\<rparr>))
             else Inr (a\<lparr>world_size := n\<rparr>))
      else Inr a)"

definition resolve_rank ::
  "'o runtime \<Rightarrow> args \<Rightarrow> 'o run_state \<Rightarrow> (exn \<times> 'o run_state) + (args \<times> 'o run_state)" where
  "resolve_rank rt a0 st =
     (let a = a0\<lparr>distributed := world_size a0 > 1\<rparr>
      in if distributed a then
           or_raise (environ_get_int rt ''PMI_RANK'') st (\<lambda>n.
           or_raise (if n = - 1 then environ_int rt ''RANK'' else Inr n) st (\<lambda>r.
             let a' = a\<lparr>rank := r\<rparr>
             in Inr (a', emit (EvInitProcessGroup (dist_backend a') (dist_url a')
                                (world_size a') (rank a')) st)))
         else Inr (a, st))"

text \<open>
  The choice of the partition config. In the other branch the statement
  \<open>raise DGLError(...)\<close> first evaluates the name \<open>DGLError\<close>.
\<close>

definition part_config_of :: "bool \<Rightarrow> args \<Rightarrow> exn + string" where
  "part_config_of ccl a =
     (let nc = world_size a;
          part_config = []
      in if dataset a = ''ogbn-papers100M'' then
           Inr (os_path_join part_config
                  [''Libra_result_ogbn-papers100M'', str_int nc @ ''Communities'',
                   ''ogbn-papers100M.json''])
         else
           (case lookup_name ccl ''DGLError'' of
              Inl e \<Rightarrow> Inl e
            | Inr u \<Rightarrow> Inl (DGLError ''Error: Dataset not found.'')))"

text \<open>The three assert statements on \<open>part_files\<close>.\<close>

definition check_part_files :: "json \<Rightarrow> exn + unit" where
  "check_part_files part_files =
     (case json_contains ''node_feats'' part_files of
        Inl e \<Rightarrow> Inl e
      | Inr b1 \<Rightarrow>
          if \<not> b1 then Inl (AssertionError ''the partition does not contain node features.'')
          else
            (case json_contains ''edge_feats'' part_files of
               Inl e \<Rightarrow> Inl e
             | Inr b2 \<Rightarrow>
                 if \<not> b2 then Inl (AssertionError ''the partition does not contain edge feature.'')
                 else
                   (case json_contains ''part_graph'' part_files of
                      Inl e \<Rightarrow> Inl e
                    | Inr b3 \<Rightarrow>
                        if \<not> b3
                        then Inl (AssertionError ''the partition does not contain graph structure.'')
                        else Inr ())))"

text \<open>\<open>graph.ndata[k] = node_feats[k]\<close>.\<close>

definition copy_ndata :: "tensor dict \<Rightarrow> string \<Rightarrow> graph \<Rightarrow> exn + graph" where
  "copy_ndata node_feats k graph =
     (case dict_get node_feats k of
        Inl e \<Rightarrow> Inl e
      | Inr t \<Rightarrow> Inr (graph\<lparr>ndata := dict_set (ndata graph) k t\<rparr>))"

text \<open>The five assignments to \<open>graph.ndata\<close> and the conversion of the labels.\<close>

definition set_ndata :: "tensor dict \<Rightarrow> graph \<Rightarrow> exn + graph" where
  "set_ndata node_feats graph0 =
     (case copy_ndata node_feats ''feat'' graph0 of Inl e \<Rightarrow> Inl e | Inr g1 \<Rightarrow>
      case copy_ndata node_feats ''label'' g1 of Inl e \<Rightarrow> Inl e | Inr g2 \<Rightarrow>
      case copy_ndata node_feats ''train_mask'' g2 of Inl e \<Rightarrow> Inl e | Inr g3 \<Rightarrow>
      case copy_ndata node_feats ''test_mask'' g3 of Inl e \<Rightarrow> Inl e | Inr g4 \<Rightarrow>
      case copy_ndata node_feats ''val_mask'' g4 of Inl e \<Rightarrow> Inl e | Inr g5 \<Rightarrow>
      case dict_get (ndata g5) ''label'' of Inl e \<Rightarrow> Inl e | Inr t \<Rightarrow>
        Inr (g5\<lparr>ndata := dict_set (ndata g5) ''label'' (long t)\<rparr>))"

text \<open>
  From the print of the partition location to the conversion of the labels: the
  config is opened and read, the entry of this rank is checked, its tensors and its
  graph are loaded (\<open>load_graphs(...)[0][0]\<close> raises IndexError on an empty list), and
  the graph's node data is set. The result is \<open>graph\<close>, \<open>num_parts\<close> and \<open>node_map\<close>.
\<close>

definition load_partition ::
  "'o runtime \<Rightarrow> args \<Rightarrow> string \<Rightarrow> 'o run_state \<Rightarrow>
     (exn \<times> 'o run_state) + ((graph \<times> json \<times> json) \<times> 'o run_state)" where
  "load_partition rt a part_config st0 =
     (let st1 = (if rank a = 0 then emit (EvPrint ''Dataset/partition location: '') st0 else st0);
          st2 = emit (EvOpenJson part_config) st1;
          part_metadata = json_file rt part_config
      in or_raise (json_subscript part_metadata (''part-'' @ str_int (rank a))) st2 (\<lambda>part_files.
         or_raise (check_part_files part_files) st2 (\<lambda>u.
         or_raise (json_subscript part_files ''node_feats'') st2 (\<lambda>node_feats_file.
           let st3 = emit (EvLoadTensors node_feats_file) st2;
               node_feats = load_tensors rt node_feats_file
           in or_raise (json_subscript part_files ''part_graph'') st3 (\<lambda>part_graph_file.
                let st4 = emit (EvLoadGraphs part_graph_file) st3
                in or_raise (case load_graphs rt part_graph_file of
                               [] \<Rightarrow> Inl IndexError
                             | graph # gs \<Rightarrow> Inr graph) st4 (\<lambda>graph.
                   or_raise (json_subscript part_metadata ''num_parts'') st4 (\<lambda>num_parts.
                   or_raise (json_subscript part_metadata ''node_map'') st4 (\<lambda>node_map.
                   or_raise (set_ndata node_feats graph) st4 (\<lambda>graph'.
                     Inr ((graph', num_parts, node_map), st4))))))))))"

text \<open>
  Modelled from the spec: the constructor of the class \<open>drpa\<close>, which the source
  imports and calls but does not define. The object it returns is the
  replicated-partition object built from the arguments of the call.
\<close>

definition drpa :: "graph \<Rightarrow> int \<Rightarrow> json \<Rightarrow> json \<Rightarrow> int \<Rightarrow> string \<Rightarrow> int \<Rightarrow> drpa_obj" where
  "drpa graph rank' num_parts node_map nr' dist_module n_layers' =
     \<lparr>drpa_graph = graph, drpa_rank = rank', drpa_num_parts = num_parts,
      drpa_node_map = node_map, drpa_nr = nr', drpa_dist = dist_module,
      drpa_n_layers = n_layers'\<rparr>"

text \<open>
  \<open>def main(graph, data)\<close>: a function of two parameters. \<open>extra\<close> are the positional
  arguments of a call beyond the first two; a call that has any raises TypeError
  before the body starts.
\<close>

definition main ::
  "'o runtime \<Rightarrow> args \<Rightarrow> drpa_obj \<Rightarrow> data \<Rightarrow> json list \<Rightarrow> 'o run_state \<Rightarrow> 'o result" where
  "main rt a graph dat extra st0 =
     (if extra \<noteq> [] then Inl (TypeError, st0)
      else
        (let st1 = emit EvGcSetThreshold st0;
             st2 = (if rank a = 0 then emit (EvPrint ''Starting a run: '') st1 else st1)
         in case run rt a graph dat st2 of
              Inl e \<Rightarrow> Inl e
            | Inr st3 \<Rightarrow>
                Inr (if rank a = 0 then emit (EvPrint ''Run completed !!!'') st3 else st3)))"

text \<open>The prints after \<open>drpa_finalize\<close>, on rank 0.\<close>

definition print_run_details :: "'o run_state \<Rightarrow> 'o run_state" where
  "print_run_details st =
     foldl (\<lambda>s tag. emit (EvPrint tag) s) st
       [''run details:'', ''#ranks: '', ''Dataset:'', ''Delay: '', ''lr: '', ''Aggregator: '', [], []]"

text \<open>
  The statements that settle \<open>args.world_size\<close> and \<open>args.rank\<close>, with the print of
  both.
\<close>

definition resolve_args ::
  "'o runtime \<Rightarrow> args \<Rightarrow> 'o run_state \<Rightarrow> (exn \<times> 'o run_state) + (args \<times> 'o run_state)" where
  "resolve_args rt a0 st0 =
     or_raise (resolve_world_size rt a0) st0 (\<lambda>a1.
       case resolve_rank rt a1 st0 of
         Inl e \<Rightarrow> Inl e
       | Inr (a, st1) \<Rightarrow> Inr (a, emit (EvPrint ''Rank: World_size: '') st1))"

text \<open>
  From \<open>n_classes = 172\<close> to the end of the script: the tuple \<open>data\<close> and the drpa
  object are built, \<open>main\<close> is called with three positional arguments, and after it
  come \<open>drpa_finalize\<close>, the prints of rank 0 and the barrier.
\<close>

definition launch ::
  "'o runtime \<Rightarrow> args \<Rightarrow> graph \<Rightarrow> json \<Rightarrow> json \<Rightarrow> 'o run_state \<Rightarrow> 'o result" where
  "launch rt a graph num_parts node_map st3 =
     (let n_classes = 172;
          st4 = (if rank a = 0 then emit (EvPrint ''n_classes: '') st3 else st3);
          dat = (n_classes, node_map, num_parts, rank a, world_size a);
          gobj = drpa graph (rank a) num_parts node_map (nr a) ''torch.distributed'' (n_layers a);
          st5 = emit (EvDrpa gobj) st4
      in case main rt a gobj dat [JStr (dataset a)] st5 of
           Inl e \<Rightarrow> Inl e
         | Inr st6 \<Rightarrow>
             (let st7 = emit (EvDrpaFinalize gobj) st6;
                  st8 = (if rank a = 0 then print_run_details st7 else st7)
              in Inr (emit EvBarrier st8)))"

text \<open>The script from \<open>nc = args.world_size\<close> on, for the namespace as it stands there.\<close>

definition script_body :: "'o runtime \<Rightarrow> args \<Rightarrow> 'o run_state \<Rightarrow> 'o result" where
  "script_body rt a st2 =
     or_raise (part_config_of (ccl_imported rt) a) st2 (\<lambda>part_config.
       case load_partition rt a part_config st2 of
         Inl e \<Rightarrow> Inl e
       | Inr ((graph, num_parts, node_map), st3) \<Rightarrow> launch rt a graph num_parts node_map st3)"

definition script :: "'o runtime \<Rightarrow> args \<Rightarrow> 'o run_state \<Rightarrow> 'o result" where
  "script rt a0 st0 =
     (case resolve_args rt a0 st0 of
        Inl e \<Rightarrow> Inl e
      | Inr (a, st2) \<Rightarrow> script_body rt a st2)"

subsection \<open>Notions used in the statements\<close>

text \<open>The library calls of one forward pass over the layers \<open>ls\<close>, in order.\<close>

definition forward_events :: "sageconv list \<Rightarrow> event list" where
  "forward_events ls =
     concat (map (\<lambda>(l, layer). if int l \<noteq> int (length ls) - 1
                                then [EvLayer layer, EvActivation, EvDropout]
                                else [EvLayer layer]) (enumerate 0 ls))"

text \<open>The library calls of one call of \<open>evaluate\<close> on the node ids \<open>ids\<close>.\<close>

definition evaluate_events :: "sageconv list \<Rightarrow> nid \<Rightarrow> event list" where
  "evaluate_events ls ids =
     [EvModelEval] @ forward_events ls @ [EvIndex ids, EvIndex ids, EvArgmax, EvCountEqual]"

text \<open>
  The all-reduce calls of the loop over the parameters \<open>ps\<close>: one for each parameter
  that meets the condition, in the order of the parameters.
\<close>

definition sync_events :: "param list \<Rightarrow> event list" where
  "sync_events ps =
     map (\<lambda>(i, p). EvAllReduce (GradOf i) ReduceOp_SUM)
       (filter (\<lambda>(i, p). synced p) (enumerate 0 ps))"

text \<open>
  The number of collective calls the loop over the parameters \<open>ps\<close> makes before it
  reaches the parameter at position \<open>i\<close>.
\<close>

definition calls_before :: "param list \<Rightarrow> nat \<Rightarrow> nat" where
  "calls_before ps i = length (filter synced (take i ps))"


text \<open>The events of opening the config and of loading tensors and graphs.\<close>

definition is_load_event :: "event \<Rightarrow> bool" where
  "is_load_event ev =
     (case ev of
        EvOpenJson path \<Rightarrow> True
      | EvLoadTensors x \<Rightarrow> True
      | EvLoadGraphs x \<Rightarrow> True
      | _ \<Rightarrow> False)"

text \<open>The events that only \<open>main\<close> and \<open>run\<close> produce.\<close>

definition is_run_event :: "event \<Rightarrow> bool" where
  "is_run_event ev =
     (case ev of
        EvPrint tag \<Rightarrow> False
      | EvInitProcessGroup b u w r \<Rightarrow> False
      | EvOpenJson path \<Rightarrow> False
      | EvLoadTensors x \<Rightarrow> False
      | EvLoadGraphs x \<Rightarrow> False
      | EvDrpa g \<Rightarrow> False
      | EvDrpaFinalize g \<Rightarrow> False
      | EvBarrier \<Rightarrow> False
      | _ \<Rightarrow> True)"

subsection \<open>A run of two ranks, seen from rank 0\<close>

text \<open>
  The parsed namespace of a launch with the default options on two ranks (the
  environment sets WORLD\_SIZE to 2 and RANK to 0), a partition config of two
  partitions, the tensors and the graph of partition 0, and an environment in which
  the backward pass leaves the gradient \<open>[1]\<close> in the only
  parameter while the other rank passes \<open>[3]\<close> to every all-reduce of a gradient.
\<close>

definition args_example :: args where
  "args_example =
     \<lparr>dataset = ''ogbn-papers100M'', dropout = 1 / 2, gpu = - 1, nr = 1, val = False,
      lr = 1 / 100, n_epochs = 2, n_hidden = 64, n_layers = 1, weight_decay = 5 / 10000,
      aggregator_type = ''gcn'', world_size = - 1, rank = - 1, dist_url = ''env://'',
      dist_backend = ''ccl'', distributed = False\<rparr>"

text \<open>The namespace after the world size and the rank have been read from the environment.\<close>

definition args_resolved :: args where
  "args_resolved = args_example\<lparr>world_size := 2, distributed := True, rank := 0\<rparr>"

definition config_example :: json where
  "config_example =
     JObj [(''num_parts'', JInt 2),
           (''node_map'', JArr [JInt 0, JInt 1]),
           (''part-0'', JObj [(''node_feats'', JStr ''part0/node_feat.dgl''),
                              (''edge_feats'', JStr ''part0/edge_feat.dgl''),
                              (''part_graph'', JStr ''part0/graph.dgl'')]),
           (''part-1'', JObj [(''node_feats'', JStr ''part1/node_feat.dgl''),
                              (''edge_feats'', JStr ''part1/edge_feat.dgl''),
                              (''part_graph'', JStr ''part1/graph.dgl'')])]"

definition node_feats_example :: "tensor dict" where
  "node_feats_example =
     [(''feat'', \<lparr>dtype = Float32, elems = [1 / 2, 1 / 4]\<rparr>),
      (''label'', \<lparr>dtype = Float32, elems = [3, 7]\<rparr>),
      (''train_mask'', \<lparr>dtype = Bool8, elems = [1, 0]\<rparr>),
      (''test_mask'', \<lparr>dtype = Bool8, elems = [0, 1]\<rparr>),
      (''val_mask'', \<lparr>dtype = Bool8, elems = [0, 0]\<rparr>)]"

definition graph_example :: graph where
  "graph_example = \<lparr>num_nodes = 2, edges = [(0, 1)], ndata = []\<rparr>"

definition rt_example :: "unit runtime" where
  "rt_example =
     \<lparr>getenv_int = (\<lambda>name. if name = ''WORLD_SIZE'' then Some (Inr 2)
                            else if name = ''RANK'' then Some (Inr 0) else None),
      ccl_imported = False,
      json_file = (\<lambda>path. config_example),
      load_tensors = (\<lambda>x. node_feats_example),
      load_graphs = (\<lambda>x. [graph_example]),
      in_feats_op = (\<lambda>g. 1),
      new_model_op = (\<lambda>ls m. m\<lparr>params := [\<lparr>requires_grad = True, grad = None\<rparr>]\<rparr>),
      adam_op = (\<lambda>m. m),
      cuda_op = (\<lambda>m. m),
      train_op = (\<lambda>m. m),
      eval_op = (\<lambda>m. m),
      layer_op = (\<lambda>g layer m. m),
      relu_op = (\<lambda>m. m),
      dropout_op = (\<lambda>p m. m),
      cross_entropy_op = (\<lambda>m. m),
      zero_grad_op = (\<lambda>m. m\<lparr>params := map (\<lambda>p. p\<lparr>grad := None\<rparr>) (params m)\<rparr>),
      backward_op = (\<lambda>m. m\<lparr>params := map (\<lambda>p. p\<lparr>grad := Some [1]\<rparr>) (params m)\<rparr>),
      step_op = (\<lambda>m. m),
      correct_op = (\<lambda>m ids. 1),
      len_labels = (\<lambda>ids. 1),
      peer_tensors = (\<lambda>k. [[3]]),
      peer_scalars = (\<lambda>k. [1 / 2])\<rparr>"


definition st_example :: "unit run_state" where
  "st_example =
     \<lparr>ms = \<lparr>params = [\<lparr>requires_grad = True, grad = Some [1]\<rparr>], rest = ()\<rparr>,
      trace = [], ncoll = 0\<rparr>"

definition gobj_example :: drpa_obj where
  "gobj_example =
     drpa graph_example 0 (JInt 2) (JArr [JInt 0, JInt 1]) 1 ''torch.distributed'' 1"

definition model_example :: "(unit model_state \<Rightarrow> unit model_state) GraphSAGE" where
  "model_example = GraphSAGE_init 1 64 172 1 (relu_op rt_example) (1 / 2) ''gcn''"


text \<open>The state in which the script starts: no parameter yet, no call made.\<close>

definition st_initial :: "unit run_state" where
  "st_initial = \<lparr>ms = \<lparr>params = [], rest = ()\<rparr>, trace = [], ncoll = 0\<rparr>"

section \<open>Properties\<close>

subsection \<open>The layers of the model and its forward pass\<close>

lemma foldl_snoc_const:
  "foldl (\<lambda>ls i. ls @ [x]) ls0 xs = ls0 @ replicate (length xs) x"
  by (induction xs arbitrary: ls0) (simp_all add: replicate_app_Cons_same)

lemma length_py_range: "length (py_range n) = nat n"
  by (simp add: py_range_def)

lemma forward_inner:
  "k + length ls < n \<Longrightarrow>
   foldl (forward_step lc ac dc n) x (enumerate k ls) = foldl (\<lambda>h l. dc (ac (lc l h))) x ls"
  by (induction ls arbitrary: k x) (auto simp: forward_step_def Let_def)

lemma forward_snoc:
  "forward lc ac dc (ls @ [l]) x b = lc l (foldl (\<lambda>h l. dc (ac (lc l h))) x ls)"
  by (simp add: forward_def enumerate_append_eq forward_inner) (simp add: forward_step_def)

lemma GraphSAGE_init_layers:
  "self_layers (GraphSAGE_init i h c L act p agg) =
     SAGEConv i h agg # replicate (nat (L - 1)) (SAGEConv h h agg) @ [SAGEConv h c agg]"
  by (simp add: GraphSAGE_init_def Let_def foldl_snoc_const length_py_range)

text \<open>
  C10. For every \<open>n_layers \<ge> 1\<close> (here \<open>L\<close>) the constructed model holds the input
  layer from \<open>in_feats\<close> to \<open>n_hidden\<close>, then \<open>n_layers - 1\<close> hidden layers, then the
  output layer from \<open>n_hidden\<close> to \<open>n_classes\<close>: \<open>n_layers + 1\<close> layers in all. Its
  forward pass applies the activation and then the dropout after every layer but the
  last, and neither after the last.
\<close>

theorem GraphSAGE_structure:
  assumes "1 \<le> L"
  shows "self_layers (GraphSAGE_init i h c L act p agg) =
           [SAGEConv i h agg] @ replicate (nat (L - 1)) (SAGEConv h h agg) @ [SAGEConv h c agg]
       \<and> int (length (self_layers (GraphSAGE_init i h c L act p agg))) = L + 1
       \<and> forward lc ac dc (self_layers (GraphSAGE_init i h c L act p agg)) x b =
           lc (SAGEConv h c agg)
             (foldl (\<lambda>h' l. dc (ac (lc l h'))) x
                ([SAGEConv i h agg] @ replicate (nat (L - 1)) (SAGEConv h h agg)))"
proof -
  let ?ls = "[SAGEConv i h agg] @ replicate (nat (L - 1)) (SAGEConv h h agg)"
  have layers: "self_layers (GraphSAGE_init i h c L act p agg) = ?ls @ [SAGEConv h c agg]"
    by (simp add: GraphSAGE_init_layers)
  have len: "int (length (?ls @ [SAGEConv h c agg])) = L + 1"
    using assms by simp
  show ?thesis
    unfolding layers using len forward_snoc [of lc ac dc ?ls] by simp
qed

theorem GraphSAGE_structure_witness:
  "(1::int) \<le> 3
   \<and> self_layers (GraphSAGE_init 128 64 172 3 () (1 / 2) ''gcn'') =
       [SAGEConv 128 64 ''gcn'', SAGEConv 64 64 ''gcn'', SAGEConv 64 64 ''gcn'',
        SAGEConv 64 172 ''gcn'']
   \<and> forward (\<lambda>l t. t @ [EvLayer l]) (\<lambda>t. t @ [EvActivation]) (\<lambda>t. t @ [EvDropout])
       (self_layers (GraphSAGE_init 128 64 172 3 () (1 / 2) ''gcn'')) [] False =
       [EvLayer (SAGEConv 128 64 ''gcn''), EvActivation, EvDropout,
        EvLayer (SAGEConv 64 64 ''gcn''), EvActivation, EvDropout,
        EvLayer (SAGEConv 64 64 ''gcn''), EvActivation, EvDropout,
        EvLayer (SAGEConv 64 172 ''gcn'')]"
proof -
  have h: "(1::int) \<le> 3" by simp
  note t = GraphSAGE_structure [OF h, of 128 64 172 "()" "1 / 2" "''gcn''"
      "\<lambda>l t. t @ [EvLayer l]" "\<lambda>t. t @ [EvActivation]" "\<lambda>t. t @ [EvDropout]" "[]" False]
  have a: "self_layers (GraphSAGE_init 128 64 172 3 () (1 / 2) ''gcn'') =
       [SAGEConv 128 64 ''gcn'', SAGEConv 64 64 ''gcn'', SAGEConv 64 64 ''gcn'',
        SAGEConv 64 172 ''gcn'']"
    using t [THEN conjunct1] by (simp add: numeral_2_eq_2)
  have b: "forward (\<lambda>l t. t @ [EvLayer l]) (\<lambda>t. t @ [EvActivation]) (\<lambda>t. t @ [EvDropout])
       (self_layers (GraphSAGE_init 128 64 172 3 () (1 / 2) ''gcn'')) [] False =
       [EvLayer (SAGEConv 128 64 ''gcn''), EvActivation, EvDropout,
        EvLayer (SAGEConv 64 64 ''gcn''), EvActivation, EvDropout,
        EvLayer (SAGEConv 64 64 ''gcn''), EvActivation, EvDropout,
        EvLayer (SAGEConv 64 172 ''gcn'')]"
    using t [THEN conjunct2, THEN conjunct2] by (simp add: numeral_2_eq_2)
  show ?thesis
    by (rule conjI [OF h conjI [OF a b]])
qed

subsection \<open>Traces of the library calls\<close>

lemma emit_simps [simp]:
  "trace (emit e st) = trace st @ [e]"
  "ms (emit e st) = ms st"
  "ncoll (emit e st) = ncoll st"
  by (simp_all add: emit_def)

lemma lib_call_simps [simp]:
  "trace (lib_call e f st) = trace st @ [e]"
  "ms (lib_call e f st) = f (ms st)"
  "ncoll (lib_call e f st) = ncoll st"
  by (simp_all add: lib_call_def)

lemma forward_fold_trace:
  "trace (foldl (forward_step (\<lambda>layer. lib_call (EvLayer layer) (lo layer))
                   (lib_call EvActivation ao) (lib_call EvDropout d) n) st (enumerate k ls)) =
   trace st @ concat (map (\<lambda>(l, layer). if int l \<noteq> int n - 1
                                then [EvLayer layer, EvActivation, EvDropout]
                                else [EvLayer layer]) (enumerate k ls))"
  by (induction ls arbitrary: k st) (simp_all add: forward_step_def Let_def)

lemma forward_fold_ncoll:
  "ncoll (foldl (forward_step (\<lambda>layer. lib_call (EvLayer layer) (lo layer))
                   (lib_call EvActivation ao) (lib_call EvDropout d) n) st (enumerate k ls)) =
   ncoll st"
  by (induction ls arbitrary: k st) (simp_all add: forward_step_def Let_def)

lemma model_call_trace [simp]:
  "trace (model_call rt g m b st) = trace st @ forward_events (self_layers m)"
  by (simp add: model_call_def forward_def forward_events_def forward_fold_trace)

lemma model_call_ncoll [simp]:
  "ncoll (model_call rt g m b st) = ncoll st"
  by (simp add: model_call_def forward_def forward_fold_ncoll)

subsection \<open>The all-reduce of the gradients\<close>

lemma sync_loop_trace:
  "trace (snd (sync_loop rt i ps st)) =
   trace st @ map (\<lambda>(j, p). EvAllReduce (GradOf j) ReduceOp_SUM)
                (filter (\<lambda>(j, p). synced p) (enumerate i ps))"
  by (induction ps arbitrary: i st)
     (simp_all add: all_reduce_call_def case_prod_beta)

lemma sync_loop_ms:
  "ms (snd (sync_loop rt i ps st)) = ms st"
  by (induction ps arbitrary: i st)
     (simp_all add: all_reduce_call_def case_prod_beta)

lemma sync_loop_ncoll:
  "ncoll (snd (sync_loop rt i ps st)) = ncoll st + length (filter synced ps)"
  by (induction ps arbitrary: i st)
     (simp_all add: all_reduce_call_def case_prod_beta)

lemma sync_loop_nth:
  "k < length ps \<Longrightarrow>
   fst (sync_loop rt i ps st) ! k =
     (if synced (ps ! k)
      then (ps ! k)\<lparr>grad := Some (all_reduce ReduceOp_SUM (the (grad (ps ! k)))
                               (peer_tensors rt (ncoll st + calls_before ps k)))\<rparr>
      else ps ! k)"
proof (induction ps arbitrary: i st k)
  case Nil
  then show ?case by simp
next
  case (Cons p ps)
  show ?case
  proof (cases k)
    case 0
    then show ?thesis
      by (simp add: all_reduce_call_def calls_before_def case_prod_beta)
  next
    case (Suc k')
    with Cons.prems have "k' < length ps" by simp
    from Cons.IH [OF this, of "Suc i"] Suc show ?thesis
      by (simp add: all_reduce_call_def calls_before_def case_prod_beta)
  qed
qed

lemma sync_gradients_simps:
  "trace (sync_gradients rt st) = trace st @ sync_events (params (ms st))"
  "ncoll (sync_gradients rt st) = ncoll st + length (filter synced (params (ms st)))"
  "rest (ms (sync_gradients rt st)) = rest (ms st)"
  "params (ms (sync_gradients rt st)) = fst (sync_loop rt 0 (params (ms st)) st)"
  by (simp_all add: sync_gradients_def case_prod_beta sync_loop_trace sync_loop_ncoll
        sync_loop_ms sync_events_def)

lemma all_reduce_length:
  "\<forall>u \<in> set peers. length u = length t \<Longrightarrow> length (all_reduce op t peers) = length t"
  by (induction peers arbitrary: t) (simp_all add: all_reduce_def)

lemma all_reduce_sum_nth:
  "\<forall>u \<in> set peers. length u = length t \<Longrightarrow> j < length t \<Longrightarrow>
   all_reduce ReduceOp_SUM t peers ! j = t ! j + sum_list (map (\<lambda>u. u ! j) peers)"
proof (induction peers arbitrary: t)
  case Nil
  then show ?case by (simp add: all_reduce_def)
next
  case (Cons u us)
  have len: "length (map2 (reduce2 ReduceOp_SUM) t u) = length t"
    using Cons.prems by simp
  have step: "all_reduce ReduceOp_SUM t (u # us) =
                all_reduce ReduceOp_SUM (map2 (reduce2 ReduceOp_SUM) t u) us"
    by (simp add: all_reduce_def)
  have "all_reduce ReduceOp_SUM (map2 (reduce2 ReduceOp_SUM) t u) us ! j =
          map2 (reduce2 ReduceOp_SUM) t u ! j + sum_list (map (\<lambda>u. u ! j) us)"
    using Cons.prems len by (intro Cons.IH) simp_all
  moreover have "map2 (reduce2 ReduceOp_SUM) t u ! j = t ! j + u ! j"
    using Cons.prems by (simp add: reduce2_def)
  ultimately show ?case
    by (simp add: step)
qed

text \<open>
  C1, as amended. The all-reduce after the backward pass leaves in the gradient of every
  parameter that has \<open>requires_grad\<close> and a gradient the cross-rank sum of that
  parameter's local gradients: element by element, the gradient of this rank plus the
  gradients the other ranks pass to the same collective call. The sum is not divided by
  the number of ranks. The statement holds in every state, so in the state after the
  backward pass of every epoch, where \<open>train_step\<close> applies \<open>sync_gradients\<close>.
\<close>

theorem sync_gradients_sum:
  assumes i: "i < length (params (ms st))"
      and rg: "requires_grad (params (ms st) ! i)"
      and g: "grad (params (ms st) ! i) = Some t"
      and shape: "\<forall>u \<in> set (peer_tensors rt (ncoll st + calls_before (params (ms st)) i)).
                    length u = length t"
  shows "\<exists>t'. grad (params (ms (sync_gradients rt st)) ! i) = Some t'
             \<and> length t' = length t
             \<and> (\<forall>j < length t.
                   t' ! j = t ! j + sum_list (map (\<lambda>u. u ! j)
                     (peer_tensors rt (ncoll st + calls_before (params (ms st)) i))))"
proof -
  let ?peers = "peer_tensors rt (ncoll st + calls_before (params (ms st)) i)"
  have s: "synced (params (ms st) ! i)"
    using rg g by (simp add: synced_def)
  have "grad (params (ms (sync_gradients rt st)) ! i) = Some (all_reduce ReduceOp_SUM t ?peers)"
    using i s g by (simp add: sync_gradients_simps sync_loop_nth)
  moreover have "length (all_reduce ReduceOp_SUM t ?peers) = length t"
    using shape by (rule all_reduce_length)
  moreover have "\<forall>j < length t.
      all_reduce ReduceOp_SUM t ?peers ! j = t ! j + sum_list (map (\<lambda>u. u ! j) ?peers)"
    using shape by (simp add: all_reduce_sum_nth)
  ultimately show ?thesis by blast
qed

lemma example_after_backward:
  "params (ms (forward_backward rt_example gobj_example model_example st_example)) =
     [\<lparr>requires_grad = True, grad = Some [1]\<rparr>]"
  by (simp add: forward_backward_def Let_def rt_example_def st_example_def model_call_def
        forward_def forward_step_def model_example_def GraphSAGE_init_def py_range_def)

theorem sync_gradients_sum_witness:
  "grad (params (ms (forward_backward rt_example gobj_example model_example st_example)) ! 0)
     = Some [1]
   \<and> peer_tensors rt_example 0 = [[3]]
   \<and> grad (params (ms (sync_gradients rt_example
               (forward_backward rt_example gobj_example model_example st_example))) ! 0)
     = Some [1 + 3]"
proof -
  let ?st = "forward_backward rt_example gobj_example model_example st_example"
  have n: "ncoll ?st = 0"
    by (simp add: forward_backward_def Let_def st_example_def)
  have p: "peer_tensors rt_example 0 = [[3]]"
    by (simp add: rt_example_def)
  have c: "calls_before (params (ms ?st)) 0 = 0"
    by (simp add: calls_before_def)
  have "\<exists>t'. grad (params (ms (sync_gradients rt_example ?st)) ! 0) = Some t'
             \<and> length t' = length [1::real]
             \<and> (\<forall>j < length [1::real].
                   t' ! j = [1] ! j + sum_list (map (\<lambda>u. u ! j)
                     (peer_tensors rt_example (ncoll ?st + calls_before (params (ms ?st)) 0))))"
    by (rule sync_gradients_sum) (simp_all add: example_after_backward n calls_before_def p)
  then obtain t' where t': "grad (params (ms (sync_gradients rt_example ?st)) ! 0) = Some t'"
    and l: "length t' = 1" and v: "t' ! 0 = 1 + 3"
    by (auto simp add: n c p)
  from l v have "t' = [1 + 3]"
    by (cases t') simp_all
  with t' p show ?thesis
    by (simp add: example_after_backward)
qed

text \<open>
  C1 as stated fails: with two ranks whose local gradients are \<open>[1]\<close> and \<open>[3]\<close>, the
  gradient after the all-reduce is \<open>[4]\<close>, not the average \<open>[2]\<close>.
\<close>

theorem sync_gradients_not_average:
  "grad (params (ms (sync_gradients rt_example
           (forward_backward rt_example gobj_example model_example st_example))) ! 0)
     \<noteq> Some [(1 + 3) / 2]"
proof -
  have p: "peer_tensors rt_example k = [[3]]" for k
    by (simp add: rt_example_def)
  show ?thesis
    by (simp add: sync_gradients_def example_after_backward synced_def all_reduce_call_def
          all_reduce_def reduce2_def p)
qed

subsection \<open>One iteration of the epoch loop\<close>

lemma forward_backward_trace:
  "trace (forward_backward rt g m st) =
     trace st @ [EvTime, EvModelTrain] @ forward_events (self_layers m)
       @ [EvIndex train_nid, EvIndex train_nid, EvCrossEntropy, EvZeroGrad, EvBackward]"
  by (simp add: forward_backward_def Let_def)

lemma train_step_trace:
  "trace (train_step rt g m st) =
     trace (forward_backward rt g m st)
       @ sync_events (params (ms (forward_backward rt g m st))) @ [EvOptimizerStep]"
  by (simp add: train_step_def Let_def sync_gradients_simps)

lemma evaluate_zero:
  "len_labels rt ids = 0 \<Longrightarrow>
   \<exists>st'. evaluate rt g m ids st = Inl (ZeroDivisionError, st')
        \<and> trace st' = trace st @ evaluate_events (self_layers m) ids"
  by (simp add: evaluate_def Let_def evaluate_events_def)

lemma evaluate_ok:
  "len_labels rt ids \<noteq> 0 \<Longrightarrow>
   \<exists>acc st'. evaluate rt g m ids st = Inr (acc, st')
        \<and> trace st' = trace st @ evaluate_events (self_layers m) ids"
  by (simp add: evaluate_def Let_def evaluate_events_def)


lemma validate_trace:
  "\<exists>later. trace (final_state (validate rt g dat m st)) = trace st @ later"
proof -
  obtain n_classes node_map num_parts d_rank d_ws
    where dat: "dat = (n_classes, node_map, num_parts, d_rank, d_ws)"
    by (cases dat)
  show ?thesis
  proof (cases "len_labels rt val_nid = 0")
    case True
    from evaluate_zero [OF this, of g m st] show ?thesis
      by (auto simp add: validate_def dat final_state_def)
  next
    case False
    from evaluate_ok [OF this, of g m st] show ?thesis
      by (auto simp add: validate_def dat final_state_def all_reduce_scalar_call_def Let_def
            split: sum.splits)
  qed
qed

lemma epoch_body_trace:
  "\<exists>later. trace (final_state (epoch_body rt a g dat m e st)) =
              trace (train_step rt g m st) @ later"
proof (cases "val a")
  case True
  obtain later where l: "trace (final_state (validate rt g dat m (train_step rt g m st))) =
                           trace (train_step rt g m st) @ later"
    using validate_trace by blast
  show ?thesis
  proof (cases "validate rt g dat m (train_step rt g m st)")
    case (Inl x)
    with True l show ?thesis
      by (simp add: epoch_body_def Let_def)
  next
    case (Inr st1)
    with True l show ?thesis
      by (simp add: epoch_body_def Let_def final_state_def)
  qed
next
  case False
  then show ?thesis
    by (simp add: epoch_body_def Let_def final_state_def)
qed

text \<open>
  C3. In every iteration (the body of the loop, from any state) the calls come in a
  fixed order: the forward pass and the loss, then \<open>zero_grad\<close> and \<open>backward\<close>, then
  one all-reduce with \<open>ReduceOp.SUM\<close> for each parameter that has \<open>requires_grad\<close>
  and a gradient after the backward pass, in the order of the parameters, and only
  then \<open>optimizer.step()\<close>, which works on the state the all-reduces have left.
  Whatever the iteration does afterwards comes later in the trace.
\<close>

theorem train_step_order:
  "trace (forward_backward rt g m st) =
     trace st @ [EvTime, EvModelTrain] @ forward_events (self_layers m)
       @ [EvIndex train_nid, EvIndex train_nid, EvCrossEntropy, EvZeroGrad, EvBackward]
   \<and> trace (train_step rt g m st) =
       trace (forward_backward rt g m st)
         @ sync_events (params (ms (forward_backward rt g m st))) @ [EvOptimizerStep]
   \<and> ms (train_step rt g m st) = step_op rt (ms (sync_gradients rt (forward_backward rt g m st)))
   \<and> (\<exists>later. trace (final_state (epoch_body rt a g dat m e st)) =
         trace (train_step rt g m st) @ later)"
proof -
  have "ms (train_step rt g m st) = step_op rt (ms (sync_gradients rt (forward_backward rt g m st)))"
    by (simp add: train_step_def Let_def)
  then show ?thesis
    using forward_backward_trace [of rt g m st] train_step_trace [of rt g m st]
      epoch_body_trace [of rt a g dat m e st]
    by blast
qed

subsection \<open>The epoch loop and the final evaluation\<close>

lemma forward_events_only:
  "ev \<in> set (forward_events ls) \<Longrightarrow> ev = EvActivation \<or> ev = EvDropout \<or> (\<exists>l. ev = EvLayer l)"
  by (auto simp add: forward_events_def split: if_splits)

lemma sync_events_only:
  "ev \<in> set (sync_events ps) \<Longrightarrow> \<exists>i. ev = EvAllReduce (GradOf i) ReduceOp_SUM"
  by (auto simp add: sync_events_def)

lemma not_in_forward_events [simp]:
  "EvModelTrain \<notin> set (forward_events ls)"
  "EvAllReduce tgt op \<notin> set (forward_events ls)"
  "EvIndex ids \<notin> set (forward_events ls)"
  by (auto dest: forward_events_only)

lemma not_in_sync_events [simp]:
  "EvModelTrain \<notin> set (sync_events ps)"
  "EvAllReduce TestAcc op \<notin> set (sync_events ps)"
  "EvIndex ids \<notin> set (sync_events ps)"
  by (auto dest: sync_events_only)

lemma not_in_evaluate_events [simp]:
  "EvModelTrain \<notin> set (evaluate_events ls ids)"
  "EvAllReduce tgt op \<notin> set (evaluate_events ls ids)"
  "ids' \<noteq> ids \<Longrightarrow> EvIndex ids' \<notin> set (evaluate_events ls ids)"
  by (simp_all add: evaluate_events_def)

lemma count_forward_events [simp]: "count_list (forward_events ls) EvModelTrain = 0"
  by (simp add: count_list_0_iff)

lemma count_sync_events [simp]: "count_list (sync_events ps) EvModelTrain = 0"
  by (simp add: count_list_0_iff)

lemma count_evaluate_events [simp]: "count_list (evaluate_events ls ids) EvModelTrain = 0"
  by (simp add: count_list_0_iff)










subsection \<open>The script\<close>

lemma dict_get_set_same [simp]: "dict_get (dict_set d k v) k = Inr v"
  by (induction d) auto

lemma dict_get_set_other [simp]: "k' \<noteq> k \<Longrightarrow> dict_get (dict_set d k v) k' = dict_get d k'"
  by (induction d) auto

lemma digits_nonempty: "digits n \<noteq> []"
  by (induction n rule: digits.induct) (subst digits.simps, simp)

lemma digit_not_sep: "n < 10 \<Longrightarrow> ''0123456789'' ! n \<noteq> CHR ''/''"
proof -
  assume "n < 10"
  then have "''0123456789'' ! n \<in> set ''0123456789''"
    by (intro nth_mem) simp
  then show ?thesis by auto
qed

lemma digits_hd: "hd (digits n) \<noteq> CHR ''/''"
proof (induction n rule: digits.induct)
  case (1 n)
  show ?case
  proof (cases "n < 10")
    case True
    then show ?thesis
      by (subst digits.simps) (simp add: digit_not_sep)
  next
    case False
    with 1 show ?thesis
      by (subst digits.simps) (simp add: digits_nonempty)
  qed
qed

lemma str_int_not_sep: "\<not> startswith_sep (str_int i @ s)"
proof (cases "i < 0")
  case True
  then show ?thesis
    by (simp add: startswith_sep_def str_int_def)
next
  case False
  obtain c cs where d: "digits (nat i) = c # cs"
    using digits_nonempty [of "nat i"] by (cases "digits (nat i)") auto
  with digits_hd [of "nat i"] have "c \<noteq> CHR ''/''"
    by simp
  with False d show ?thesis
    by (simp add: startswith_sep_def str_int_def)
qed

lemma part_config_path:
  "os_path_join [] [''Libra_result_ogbn-papers100M'', str_int nc @ ''Communities'',
                    ''ogbn-papers100M.json''] =
   ''Libra_result_ogbn-papers100M/'' @ str_int nc @ ''Communities/ogbn-papers100M.json''"
  by (simp add: os_path_join_def join_step_def str_int_not_sep)
     (simp add: startswith_sep_def endswith_sep_def)

lemma DGLError_unbound: "lookup_name ccl ''DGLError'' = Inl (NameError ''DGLError'')"
  by (simp add: lookup_name_def module_names_def builtin_names_def)
lemma launch_raises:
  "launch rt a graph num_parts node_map st =
     Inl (TypeError,
          emit (EvDrpa (drpa graph (rank a) num_parts node_map (nr a) ''torch.distributed''
                          (n_layers a)))
            (if rank a = 0 then emit (EvPrint ''n_classes: '') st else st))"
  by (simp add: launch_def main_def Let_def)

lemma launch_trace:
  "\<exists>evs. trace (final_state (launch rt a graph num_parts node_map st)) = trace st @ evs
        \<and> filter is_run_event evs = []"
  by (simp add: launch_raises final_state_def is_run_event_def)

lemma resolve_args_Inl:
  "resolve_args rt a0 st0 = Inl (e, st') \<Longrightarrow> st' = st0"
  by (auto simp add: resolve_args_def resolve_rank_def or_raise_def Let_def
        split: sum.splits if_splits)

lemma resolve_args_Inr:
  "resolve_args rt a0 st0 = Inr (a, st2) \<Longrightarrow>
     dataset a = dataset a0
     \<and> (\<exists>evs. trace st2 = trace st0 @ evs
            \<and> filter is_run_event evs = [] \<and> filter is_load_event evs = [])"
  by (auto simp add: resolve_args_def resolve_rank_def resolve_world_size_def or_raise_def
        Let_def is_run_event_def is_load_event_def split: sum.splits if_splits)

lemma load_partition_Inl:
  "load_partition rt a pc st = Inl (e, st') \<Longrightarrow>
     \<exists>later. trace st' = trace st
                @ (if rank a = 0 then [EvPrint ''Dataset/partition location: ''] else [])
                @ [EvOpenJson pc] @ later
            \<and> filter is_run_event later = []"
  by (auto simp add: load_partition_def or_raise_def Let_def is_run_event_def
        split: sum.splits list.splits if_splits)

lemma load_partition_Inr:
  "load_partition rt a pc st = Inr (r, st') \<Longrightarrow>
     \<exists>later. trace st' = trace st
                @ (if rank a = 0 then [EvPrint ''Dataset/partition location: ''] else [])
                @ [EvOpenJson pc] @ later
            \<and> filter is_run_event later = []"
  by (auto simp add: load_partition_def or_raise_def Let_def is_run_event_def
        split: sum.splits list.splits if_splits)

lemma script_body_no_run:
  "\<exists>evs. trace (final_state (script_body rt a st)) = trace st @ evs
        \<and> filter is_run_event evs = []"
proof (cases "part_config_of (ccl_imported rt) a")
  case (Inl e)
  then show ?thesis
    by (simp add: script_body_def or_raise_def final_state_def)
next
  case (Inr pc)
  show ?thesis
  proof (cases "load_partition rt a pc st")
    case (Inl x)
    obtain e st' where x: "x = (e, st')" by (cases x)
    from load_partition_Inl [of rt a pc st e st'] Inl x Inr show ?thesis
      by (auto simp add: script_body_def or_raise_def final_state_def is_run_event_def)
  next
    case r: (Inr y)
    obtain graph num_parts node_map st3 where y: "y = ((graph, num_parts, node_map), st3)"
      by (cases y) auto
    obtain later where l: "trace st3 = trace st
                @ (if rank a = 0 then [EvPrint ''Dataset/partition location: ''] else [])
                @ [EvOpenJson pc] @ later" and nl: "filter is_run_event later = []"
      using load_partition_Inr [of rt a pc st "(graph, num_parts, node_map)" st3] r y by auto
    obtain evs where e: "trace (final_state (launch rt a graph num_parts node_map st3)) =
                           trace st3 @ evs" and ne: "filter is_run_event evs = []"
      using launch_trace by blast
    have "script_body rt a st = launch rt a graph num_parts node_map st3"
      using Inr r y by (simp add: script_body_def or_raise_def)
    with l nl e ne show ?thesis
      by (auto simp add: is_run_event_def)
  qed
qed

text \<open>
  C2. The call \<open>main(gobj, data, args.dataset)\<close> passes three positional arguments to a
  function of two parameters: every execution that reaches it (every state, graph and
  metadata at that point) leaves with TypeError in the state of the call, right after
  the construction of the drpa object; and in no execution of the script, from any
  namespace, does a call of \<open>main\<close> or \<open>run\<close> appear in the trace.
\<close>

theorem main_call_raises_TypeError:
  "launch rt a graph num_parts node_map st =
     Inl (TypeError,
          emit (EvDrpa (drpa graph (rank a) num_parts node_map (nr a) ''torch.distributed''
                          (n_layers a)))
            (if rank a = 0 then emit (EvPrint ''n_classes: '') st else st))
   \<and> main rt a gobj dat (x # extra) st = Inl (TypeError, st)
   \<and> filter is_run_event (trace (final_state (script rt a0 st0))) =
       filter is_run_event (trace st0)"
proof -
  have m: "main rt a gobj dat (x # extra) st = Inl (TypeError, st)"
    by (simp add: main_def)
  have s: "filter is_run_event (trace (final_state (script rt a0 st0))) =
             filter is_run_event (trace st0)"
  proof (cases "resolve_args rt a0 st0")
    case (Inl y)
    obtain e st' where y: "y = (e, st')" by (cases y)
    with Inl resolve_args_Inl [of rt a0 st0 e st'] show ?thesis
      by (simp add: script_def final_state_def)
  next
    case (Inr y)
    obtain a' st2 where y: "y = (a', st2)" by (cases y)
    obtain evs where e: "trace st2 = trace st0 @ evs" and ne: "filter is_run_event evs = []"
      using resolve_args_Inr [of rt a0 st0 a' st2] Inr y by auto
    obtain evs' where e': "trace (final_state (script_body rt a' st2)) = trace st2 @ evs'"
      and ne': "filter is_run_event evs' = []"
      using script_body_no_run by blast
    from Inr y e ne e' ne' show ?thesis
      by (simp add: script_def)
  qed
  from launch_raises m s show ?thesis by blast
qed

text \<open>
  C9. For a \<open>--dataset\<close> value other than ogbn-papers100M the name \<open>DGLError\<close> is bound
  neither in the module nor among the built-in names, and the raise statement leaves
  with NameError (not with a DGLError), in the state in which the branch was entered.
\<close>

theorem unknown_dataset_NameError:
  assumes "dataset a \<noteq> ''ogbn-papers100M''"
  shows "''DGLError'' \<notin> set (module_names ccl)
       \<and> ''DGLError'' \<notin> set builtin_names
       \<and> part_config_of ccl a = Inl (NameError ''DGLError'')
       \<and> script_body rt a st = Inl (NameError ''DGLError'', st)"
proof -
  have 1: "''DGLError'' \<notin> set (module_names ccl)"
    by (simp add: module_names_def)
  have 2: "''DGLError'' \<notin> set builtin_names"
    by (simp add: builtin_names_def)
  have 3: "part_config_of c a = Inl (NameError ''DGLError'')" for c
    using assms by (simp add: part_config_of_def Let_def DGLError_unbound)
  have 4: "script_body rt a st = Inl (NameError ''DGLError'', st)"
    by (simp add: script_body_def or_raise_def 3)
  from 1 2 3 4 show ?thesis by blast
qed

theorem unknown_dataset_NameError_witness:
  "dataset (args_resolved\<lparr>dataset := ''reddit''\<rparr>) \<noteq> ''ogbn-papers100M''
   \<and> script_body rt_example (args_resolved\<lparr>dataset := ''reddit''\<rparr>) st_initial =
       Inl (NameError ''DGLError'', st_initial)"
proof -
  have h: "dataset (args_resolved\<lparr>dataset := ''reddit''\<rparr>) \<noteq> ''ogbn-papers100M''"
    by simp
  from unknown_dataset_NameError [OF h, of False rt_example st_initial] h show ?thesis
    by blast
qed

end
